theory Spec2Isabelle
  imports Complex_Main "HOL-Library.Sublist"
begin

section \<open>Strings and exceptions\<close>

text \<open>
  A Python \<^verbatim>\<open>str\<close> is a sequence of Unicode code points, so a string of the program is a
  list of code points (natural numbers below \<open>0x110000\<close>). A Python string may hold lone
  surrogates (\<open>0xD800\<close> to \<open>0xDFFF\<close>). \<open>ustr\<close> turns an ASCII literal into such a list.
\<close>

type_synonym ustring = "nat list"

definition ustr :: "string \<Rightarrow> ustring" where
  "ustr s = map of_char s"

text \<open>The exceptions the module can raise: each \<^verbatim>\<open>raise\<close> is a value \<open>Inl e\<close>.\<close>

datatype error = TypeError | IndexError | UnicodeEncodeError

text \<open>Python's \<^verbatim>\<open>x in s\<close> on two strings: \<open>x\<close> occurs in \<open>s\<close> as a contiguous substring.\<close>

fun str_in :: "ustring \<Rightarrow> ustring \<Rightarrow> bool" where
  "str_in x [] = (x = [])"
| "str_in x (c # s) = (prefix x (c # s) \<or> str_in x s)"

text \<open>
  Python's \<^verbatim>\<open>'%X' % n\<close> on an integer: upper-case hexadecimal digits, with a leading minus
  sign for a negative number.
\<close>

definition hex_digit :: "nat \<Rightarrow> nat" where
  "hex_digit d = (if d < 10 then 0x30 + d else 0x41 + (d - 10))"

function hex_digits :: "nat \<Rightarrow> ustring" where
  "hex_digits n = (if n < 16 then [hex_digit n] else hex_digits (n div 16) @ [hex_digit (n mod 16)])"
  by pat_completeness auto
termination
  by (relation "measure id") auto

definition format_X :: "int \<Rightarrow> ustring" where
  "format_X n = (if n < 0 then 0x2D # hex_digits (nat (- n)) else hex_digits (nat n))"

section \<open>ASCII lower case\<close>

text \<open>
  The spec's words, "the ASCII-lowercase of the source-cased field": the letters \<open>A\<close> to \<open>Z\<close>
  are mapped to \<open>a\<close> to \<open>z\<close> and every other code point is kept.
\<close>

definition ascii_lower_code_point :: "nat \<Rightarrow> nat" where
  "ascii_lower_code_point c = (if 0x41 \<le> c \<and> c \<le> 0x5A then c + 0x20 else c)"

definition ascii_lowercase :: "ustring \<Rightarrow> ustring" where
  "ascii_lowercase s = map ascii_lower_code_point s"

definition is_surrogate :: "nat \<Rightarrow> bool" where
  "is_surrogate c = (0xD800 \<le> c \<and> c \<le> 0xDFFF)"

text \<open>
  Modelled from the spec: \<^verbatim>\<open>ascii_lower\<close> is imported from the library \<^verbatim>\<open>webencodings\<close>
  and is absent from the sources. It encodes the string as UTF-8, lowers the ASCII letters
  of the bytes and decodes them again. The encoding step raises \<^verbatim>\<open>UnicodeEncodeError\<close> on
  a string that holds a surrogate code point (the exception \<^verbatim>\<open>IdentToken.__init__\<close> and
  \<^verbatim>\<open>AtKeywordToken.__init__\<close> catch); on every other string the result is the ASCII lower
  case of the string.
\<close>

definition ascii_lower :: "ustring \<Rightarrow> error + ustring" where
  "ascii_lower string =
     (if list_ex is_surrogate string then Inl UnicodeEncodeError
      else Inr (map ascii_lower_code_point string))"

section \<open>The node classes\<close>

text \<open>
  One constructor per class of \<^verbatim>\<open>ast.py\<close>, with the slots of the class in the order of
  \<^verbatim>\<open>__slots__\<close>, after \<^verbatim>\<open>source_line\<close> and \<^verbatim>\<open>source_column\<close> of \<^verbatim>\<open>Node\<close>.
  The slot \<^verbatim>\<open>value\<close> is \<open>value'\<close> where it is a string, \<open>number_value\<close> where it is
  a float and \<open>declaration_value\<close> where it is a list; \<^verbatim>\<open>end\<close> is \<open>end'\<close>; the
  \<^verbatim>\<open>content\<close> of an at-rule, a list or \<^verbatim>\<open>None\<close>, is \<open>rule_content\<close>.
  A float is only stored and written back, never computed with, so it is a real number here.
\<close>

datatype node =
    ParseError (source_line: int) (source_column: int) (kind: ustring) (message: ustring)
  | Comment (source_line: int) (source_column: int) (value': ustring)
  | WhitespaceToken (source_line: int) (source_column: int) (value': ustring)
  | LiteralToken (source_line: int) (source_column: int) (value': ustring)
  | IdentToken (source_line: int) (source_column: int) (value': ustring) (lower_value: ustring)
  | AtKeywordToken (source_line: int) (source_column: int) (value': ustring)
      (lower_value: ustring)
  | HashToken (source_line: int) (source_column: int) (value': ustring) (is_identifier: bool)
  | StringToken (source_line: int) (source_column: int) (value': ustring)
      (representation: ustring)
  | URLToken (source_line: int) (source_column: int) (value': ustring) (representation: ustring)
  | UnicodeRangeToken (source_line: int) (source_column: int) (start: int) (end': int)
  | NumberToken (source_line: int) (source_column: int) (number_value: real)
      (int_value: "int option") (is_integer: bool) (representation: ustring)
  | PercentageToken (source_line: int) (source_column: int) (number_value: real)
      (int_value: "int option") (is_integer: bool) (representation: ustring)
  | DimensionToken (source_line: int) (source_column: int) (number_value: real)
      (int_value: "int option") (is_integer: bool) (representation: ustring)
      (unit: ustring) (lower_unit: ustring)
  | ParenthesesBlock (source_line: int) (source_column: int) (content: "node list")
  | SquareBracketsBlock (source_line: int) (source_column: int) (content: "node list")
  | CurlyBracketsBlock (source_line: int) (source_column: int) (content: "node list")
  | FunctionBlock (source_line: int) (source_column: int) (name: ustring) (lower_name: ustring)
      (arguments: "node list")
  | Declaration (source_line: int) (source_column: int) (name: ustring) (lower_name: ustring)
      (declaration_value: "node list") (important: bool)
  | QualifiedRule (source_line: int) (source_column: int) (prelude: "node list")
      (content: "node list")
  | AtRule (source_line: int) (source_column: int) (at_keyword: ustring)
      (lower_at_keyword: ustring) (prelude: "node list") (rule_content: "node list option")

section \<open>Constructors\<close>

text \<open>
  The \<^verbatim>\<open>__init__\<close> methods. A constructor that only stores its arguments is the
  constructor of the datatype; the ones below compute a slot or are named by a property.
  \<^verbatim>\<open>IdentToken.__init__\<close> and \<^verbatim>\<open>AtKeywordToken.__init__\<close> call \<^verbatim>\<open>ascii_lower\<close> in a
  \<^verbatim>\<open>try\<close> that catches \<^verbatim>\<open>UnicodeEncodeError\<close> and then store the value unchanged;
  \<^verbatim>\<open>DimensionToken.__init__\<close> and \<^verbatim>\<open>FunctionBlock.__init__\<close> call it outside a \<^verbatim>\<open>try\<close>.
\<close>

definition IdentToken_init :: "int \<Rightarrow> int \<Rightarrow> ustring \<Rightarrow> error + node" where
  "IdentToken_init line column v =
     (case ascii_lower v of
        Inr lowered \<Rightarrow> Inr (IdentToken line column v lowered)
      | Inl UnicodeEncodeError \<Rightarrow> Inr (IdentToken line column v v)
      | Inl e \<Rightarrow> Inl e)"

definition AtKeywordToken_init :: "int \<Rightarrow> int \<Rightarrow> ustring \<Rightarrow> error + node" where
  "AtKeywordToken_init line column v =
     (case ascii_lower v of
        Inr lowered \<Rightarrow> Inr (AtKeywordToken line column v lowered)
      | Inl UnicodeEncodeError \<Rightarrow> Inr (AtKeywordToken line column v v)
      | Inl e \<Rightarrow> Inl e)"

definition UnicodeRangeToken_init :: "int \<Rightarrow> int \<Rightarrow> int \<Rightarrow> int \<Rightarrow> node" where
  "UnicodeRangeToken_init line column s e = UnicodeRangeToken line column s e"

definition NumberToken_init :: "int \<Rightarrow> int \<Rightarrow> real \<Rightarrow> int option \<Rightarrow> ustring \<Rightarrow> node" where
  "NumberToken_init line column v int_v repr =
     NumberToken line column v int_v (int_v \<noteq> None) repr"

definition PercentageToken_init :: "int \<Rightarrow> int \<Rightarrow> real \<Rightarrow> int option \<Rightarrow> ustring \<Rightarrow> node" where
  "PercentageToken_init line column v int_v repr =
     PercentageToken line column v int_v (int_v \<noteq> None) repr"

definition DimensionToken_init ::
  "int \<Rightarrow> int \<Rightarrow> real \<Rightarrow> int option \<Rightarrow> ustring \<Rightarrow> ustring \<Rightarrow> error + node" where
  "DimensionToken_init line column v int_v repr u =
     (case ascii_lower u of
        Inl e \<Rightarrow> Inl e
      | Inr lowered \<Rightarrow>
          Inr (DimensionToken line column v int_v (int_v \<noteq> None) repr u lowered))"

definition FunctionBlock_init :: "int \<Rightarrow> int \<Rightarrow> ustring \<Rightarrow> node list \<Rightarrow> error + node" where
  "FunctionBlock_init line column n args =
     (case ascii_lower n of
        Inl e \<Rightarrow> Inl e
      | Inr lowered \<Rightarrow> Inr (FunctionBlock line column n lowered args))"


section \<open>Equality of literal tokens\<close>

text \<open>
  \<^verbatim>\<open>LiteralToken.__eq__(self, other)\<close> is \<^verbatim>\<open>self.value == other or self is other\<close>.
  The operand \<open>other\<close> is a string, or a node object; an object has an identity (its
  address), which \<^verbatim>\<open>is\<close> compares. A string compared with a node by \<^verbatim>\<open>==\<close> falls back
  to the node's own \<^verbatim>\<open>__eq__\<close>: a literal token compares its value, and the other
  classes, which define no \<^verbatim>\<open>__eq__\<close>, compare unequal to a string.
\<close>

datatype operand = Str ustring | Object nat node

fun str_eq :: "ustring \<Rightarrow> operand \<Rightarrow> bool" where
  "str_eq s (Str other) = (s = other)"
| "str_eq s (Object addr (LiteralToken line column v)) = (v = s)"
| "str_eq s (Object addr other) = False"

fun is_object :: "nat \<Rightarrow> operand \<Rightarrow> bool" where
  "is_object self_addr (Str other) = False"
| "is_object self_addr (Object addr other) = (self_addr = addr)"

definition LiteralToken_eq :: "nat \<Rightarrow> node \<Rightarrow> operand \<Rightarrow> bool" where
  "LiteralToken_eq self_addr self other =
     (str_eq (value' self) other \<or> is_object self_addr other)"

definition LiteralToken_ne :: "nat \<Rightarrow> node \<Rightarrow> operand \<Rightarrow> bool" where
  "LiteralToken_ne self_addr self other = (\<not> LiteralToken_eq self_addr self other)"

section \<open>Serialization\<close>

text \<open>
  \<^verbatim>\<open>ast.py\<close> imports \<^verbatim>\<open>serialize_identifier\<close>, \<^verbatim>\<open>serialize_name\<close> and the list
  serializer \<^verbatim>\<open>_serialize_to\<close> from \<^verbatim>\<open>serializer.py\<close>, which is absent from the sources.
  The two escaping routines are parameters: each takes a string and returns a string or
  raises. The table of token pairs that need a comment between them is a parameter too.
\<close>

record serializer =
  serialize_identifier :: "ustring \<Rightarrow> error + ustring"
  serialize_name :: "ustring \<Rightarrow> error + ustring"
  bad_pairs :: "node \<Rightarrow> node \<Rightarrow> bool"

text \<open>
  The test \<^verbatim>\<open>eof_in_string\<close> of \<^verbatim>\<open>FunctionBlock._serialize_to\<close>, on the last argument.
\<close>

fun eof_in_string :: "node \<Rightarrow> bool" where
  "eof_in_string (ParseError line column k m) = (k = ustr ''eof-in-string'')"
| "eof_in_string other = False"

text \<open>
  The \<^verbatim>\<open>while isinstance(function, FunctionBlock)\<close> loop of
  \<^verbatim>\<open>FunctionBlock._serialize_to\<close>, started at \<open>function\<close>: \<open>Inr True\<close> when the loop
  leaves the method by \<^verbatim>\<open>return\<close>, \<open>Inr False\<close> when the loop ends and the closing
  parenthesis is written, and \<^verbatim>\<open>IndexError\<close> when \<^verbatim>\<open>function.arguments[-1]\<close> reads an
  empty list.
\<close>

function (sequential) returns_unclosed :: "node \<Rightarrow> error + bool" where
  "returns_unclosed (FunctionBlock line column n lower_n args) =
     (if args = [] then Inl IndexError
      else if eof_in_string (last args) then Inr True
      else returns_unclosed (last args))"
| "returns_unclosed other = Inr False"
  by pat_completeness auto
termination
proof (relation "measure size")
  show "wf (measure size)" by simp
next
  fix line column :: int and n lower_n :: ustring and args :: "node list"
  assume "args \<noteq> []"
  then have "size (last args) \<le> size_list size args"
    by (induction args) auto
  then show "(last args, FunctionBlock line column n lower_n args) \<in> measure size"
    by simp
qed

text \<open>
  \<^verbatim>\<open>ParseError._serialize_to\<close>: the chunks written, or \<^verbatim>\<open>TypeError\<close>. The third test is
  Python's substring test \<^verbatim>\<open>self.kind in ')]}'\<close>.
\<close>

definition ParseError_serialize_to :: "ustring \<Rightarrow> error + ustring list" where
  "ParseError_serialize_to k =
     (if k = ustr ''bad-string'' then Inr [0x22 # ustr ''[bad string]'' @ [0x0A]]
      else if k = ustr ''bad-url'' then Inr [ustr ''url([bad url])'']
      else if str_in k (ustr '')]}'') then Inr [k]
      else if k = ustr ''eof-in-string'' \<or> k = ustr ''eof-in-url'' then Inr []
      else Inl TypeError)"

text \<open>
  \<open>serialize_to\<close> is the method \<^verbatim>\<open>_serialize_to(self, write)\<close> of every class, in the
  order of \<^verbatim>\<open>ast.py\<close>: its value is the list of the chunks passed to \<^verbatim>\<open>write\<close>, in order,
  or the exception raised, which loses the chunks written before it.
\<close>

text \<open>
  Modelled from the spec: the list serializer \<^verbatim>\<open>_serialize_to(nodes, write)\<close> of
  \<^verbatim>\<open>serializer.py\<close>, which the blocks, declarations and rules call on their children, is
  absent from the sources. After the spec (4.5, Serializer), it walks the nodes in order,
  each writing its own text, and inserts an empty comment between two adjacent nodes that
  would re-tokenize as one; which pairs do is the parameter \<open>bad_pairs\<close>. It is
  \<open>serialize_nodes_to\<close>, with the previous node as its second argument, defined together
  with \<open>serialize_to\<close> since each calls the other.
\<close>

fun serialize_to :: "serializer \<Rightarrow> node \<Rightarrow> error + ustring list"
  and serialize_nodes_to :: "serializer \<Rightarrow> node option \<Rightarrow> node list \<Rightarrow> error + ustring list"
where
  "serialize_to S (ParseError line column k m) = ParseError_serialize_to k"
| "serialize_to S (Comment line column v) = Inr [ustr ''/*'', v, ustr ''*/'']"
| "serialize_to S (WhitespaceToken line column v) = Inr [v]"
| "serialize_to S (LiteralToken line column v) = Inr [v]"
| "serialize_to S (IdentToken line column v lower_v) =
     (case serialize_identifier S v of Inl e \<Rightarrow> Inl e | Inr ident \<Rightarrow> Inr [ident])"
| "serialize_to S (AtKeywordToken line column v lower_v) =
     (case serialize_identifier S v of Inl e \<Rightarrow> Inl e | Inr ident \<Rightarrow> Inr [ustr ''@'', ident])"
| "serialize_to S (HashToken line column v is_ident) =
     (if is_ident then
        (case serialize_identifier S v of Inl e \<Rightarrow> Inl e | Inr ident \<Rightarrow> Inr [ustr ''#'', ident])
      else
        (case serialize_name S v of Inl e \<Rightarrow> Inl e | Inr escaped \<Rightarrow> Inr [ustr ''#'', escaped]))"
| "serialize_to S (StringToken line column v repr) = Inr [repr]"
| "serialize_to S (URLToken line column v repr) = Inr [repr]"
| "serialize_to S (UnicodeRangeToken line column s e) =
     (if e = s then Inr [ustr ''U+'' @ format_X s]
      else Inr [ustr ''U+'' @ format_X s @ ustr ''-'' @ format_X e])"
| "serialize_to S (NumberToken line column v int_v is_int repr) = Inr [repr]"
| "serialize_to S (PercentageToken line column v int_v is_int repr) = Inr [repr, ustr ''%'']"
| "serialize_to S (DimensionToken line column v int_v is_int repr u lower_u) =
     (if u = ustr ''e'' \<or> u = ustr ''E'' \<or> prefix (ustr ''e-'') u \<or> prefix (ustr ''E-'') u then
        (case serialize_name S (drop 1 u) of
           Inl e \<Rightarrow> Inl e
         | Inr escaped \<Rightarrow> Inr [repr, [0x5C, 0x36, 0x35, 0x20], escaped])
      else
        (case serialize_identifier S u of Inl e \<Rightarrow> Inl e | Inr ident \<Rightarrow> Inr [repr, ident]))"
| "serialize_to S (ParenthesesBlock line column cont) =
     (case serialize_nodes_to S None cont of
        Inl e \<Rightarrow> Inl e
      | Inr chunks \<Rightarrow> Inr ([ustr ''(''] @ chunks @ [ustr '')'']))"
| "serialize_to S (SquareBracketsBlock line column cont) =
     (case serialize_nodes_to S None cont of
        Inl e \<Rightarrow> Inl e
      | Inr chunks \<Rightarrow> Inr ([ustr ''[''] @ chunks @ [ustr '']'']))"
| "serialize_to S (CurlyBracketsBlock line column cont) =
     (case serialize_nodes_to S None cont of
        Inl e \<Rightarrow> Inl e
      | Inr chunks \<Rightarrow> Inr ([ustr ''{''] @ chunks @ [ustr ''}'']))"
| "serialize_to S (FunctionBlock line column n lower_n args) =
     (case serialize_identifier S n of
        Inl e \<Rightarrow> Inl e
      | Inr ident \<Rightarrow>
          (case serialize_nodes_to S None args of
             Inl e \<Rightarrow> Inl e
           | Inr chunks \<Rightarrow>
               (if args \<noteq> [] then
                  (case returns_unclosed (FunctionBlock line column n lower_n args) of
                     Inl e \<Rightarrow> Inl e
                   | Inr returned \<Rightarrow>
                       (if returned then Inr ([ident, ustr ''(''] @ chunks)
                        else Inr ([ident, ustr ''(''] @ chunks @ [ustr '')''])))
                else Inr ([ident, ustr ''(''] @ chunks @ [ustr '')'']))))"
| "serialize_to S (Declaration line column n lower_n v imp) =
     (case serialize_identifier S n of
        Inl e \<Rightarrow> Inl e
      | Inr ident \<Rightarrow>
          (case serialize_nodes_to S None v of
             Inl e \<Rightarrow> Inl e
           | Inr chunks \<Rightarrow>
               Inr ([ident, ustr '':''] @ chunks @ (if imp then [ustr ''!important''] else []))))"
| "serialize_to S (QualifiedRule line column prel cont) =
     (case serialize_nodes_to S None prel of
        Inl e \<Rightarrow> Inl e
      | Inr chunks \<Rightarrow>
          (case serialize_nodes_to S None cont of
             Inl e \<Rightarrow> Inl e
           | Inr chunks' \<Rightarrow> Inr (chunks @ [ustr ''{''] @ chunks' @ [ustr ''}''])))"
| "serialize_to S (AtRule line column kw lower_kw prel cont) =
     (case serialize_identifier S kw of
        Inl e \<Rightarrow> Inl e
      | Inr ident \<Rightarrow>
          (case serialize_nodes_to S None prel of
             Inl e \<Rightarrow> Inl e
           | Inr chunks \<Rightarrow>
               (case cont of
                  None \<Rightarrow> Inr ([ustr ''@'', ident] @ chunks @ [ustr '';''])
                | Some nodes \<Rightarrow>
                    (case serialize_nodes_to S None nodes of
                       Inl e \<Rightarrow> Inl e
                     | Inr chunks' \<Rightarrow>
                         Inr ([ustr ''@'', ident] @ chunks @ [ustr ''{''] @ chunks'
                              @ [ustr ''}''])))))"
| "serialize_nodes_to S previous [] = Inr []"
| "serialize_nodes_to S previous (node # nodes) =
     (case serialize_to S node of
        Inl e \<Rightarrow> Inl e
      | Inr chunks \<Rightarrow>
          (case serialize_nodes_to S (Some node) nodes of
             Inl e \<Rightarrow> Inl e
           | Inr chunks' \<Rightarrow>
               Inr ((case previous of
                       None \<Rightarrow> []
                     | Some p \<Rightarrow> if bad_pairs S p node then [ustr ''/**/''] else [])
                    @ chunks @ chunks')))"

text \<open>\<^verbatim>\<open>Node.serialize\<close>: the chunks joined, or the exception.\<close>

definition serialize :: "serializer \<Rightarrow> node \<Rightarrow> error + ustring" where
  "serialize S self =
     (case serialize_to S self of Inl e \<Rightarrow> Inl e | Inr chunks \<Rightarrow> Inr (concat chunks))"

section \<open>When serialization returns\<close>

text \<open>
  The kinds for which \<^verbatim>\<open>ParseError._serialize_to\<close> has a branch that writes or passes;
  every other kind reaches \<^verbatim>\<open>raise TypeError\<close>.
\<close>

definition serializable_kind :: "ustring \<Rightarrow> bool" where
  "serializable_kind k =
     (k = ustr ''bad-string'' \<or> k = ustr ''bad-url'' \<or> str_in k (ustr '')]}'')
      \<or> k = ustr ''eof-in-string'' \<or> k = ustr ''eof-in-url'')"

text \<open>A call that returns a value rather than raising.\<close>

fun returns :: "error + 'a \<Rightarrow> bool" where
  "returns (Inl e) = False"
| "returns (Inr x) = True"

section \<open>An instance for examples\<close>

text \<open>
  An instance of the parameters, to run the model on concrete nodes: both escaping
  routines return their argument, and no pair of nodes needs a comment. No property
  below depends on this choice.
\<close>

definition plain_serializer :: serializer where
  "plain_serializer =
     \<lparr>serialize_identifier = Inr, serialize_name = Inr, bad_pairs = (\<lambda>p n. False)\<rparr>"

section \<open>Properties\<close>

subsection \<open>Exceptions of the unguarded paths\<close>

text \<open>
  A function block whose only argument is a function block with no arguments: the loop
  moves to the inner block and reads \<^verbatim>\<open>arguments[-1]\<close> of its empty list, so
  \<^verbatim>\<open>serialize\<close> raises whatever the escaping routines do.
\<close>

lemma nested_empty_function_raises:
  "\<not> returns (serialize S (FunctionBlock line column n lower_n [FunctionBlock l c g lower_g []]))"
  by (simp add: serialize_def split: sum.splits)

text \<open>
  The same on the tree of the text \<^verbatim>\<open>f(g())\<close>: \<^verbatim>\<open>serialize\<close> raises \<^verbatim>\<open>IndexError\<close>.
  The test \<^verbatim>\<open>if self.arguments\<close> guards the list of \<^verbatim>\<open>self\<close> only, not the list of the
  nested block the loop moves to.
\<close>

lemma nested_empty_function_IndexError:
  "serialize plain_serializer
     (FunctionBlock 1 1 (ustr ''f'') (ustr ''f'') [FunctionBlock 1 3 (ustr ''g'') (ustr ''g'') []])
   = Inl IndexError"
  by (simp add: serialize_def plain_serializer_def)

text \<open>
  \<^verbatim>\<open>DimensionToken.__init__\<close> and \<^verbatim>\<open>FunctionBlock.__init__\<close> call \<^verbatim>\<open>ascii_lower\<close> outside
  the \<^verbatim>\<open>try\<close> of \<^verbatim>\<open>IdentToken.__init__\<close> and \<^verbatim>\<open>AtKeywordToken.__init__\<close>: on a unit or
  a name that is a lone surrogate they raise \<^verbatim>\<open>UnicodeEncodeError\<close>, where the two guarded
  constructors return a token.
\<close>

lemma unguarded_ascii_lower_raises:
  "DimensionToken_init 1 1 3 (Some 3) (ustr ''3'') [0xD800] = Inl UnicodeEncodeError
   \<and> FunctionBlock_init 1 1 [0xD800] [] = Inl UnicodeEncodeError
   \<and> IdentToken_init 1 1 [0xD800] = Inr (IdentToken 1 1 [0xD800] [0xD800])
   \<and> AtKeywordToken_init 1 1 [0xD800] = Inr (AtKeywordToken 1 1 [0xD800] [0xD800])"
  by (simp add: DimensionToken_init_def FunctionBlock_init_def IdentToken_init_def
      AtKeywordToken_init_def ascii_lower_def is_surrogate_def)

subsection \<open>Unicode ranges\<close>

text \<open>\<^verbatim>\<open>UnicodeRangeToken.__init__\<close> stores both bounds as they are passed.\<close>

lemma UnicodeRangeToken_init_stores:
  "start (UnicodeRangeToken_init line column s e) = s
   \<and> end' (UnicodeRangeToken_init line column s e) = e"
  by (simp add: UnicodeRangeToken_init_def)

subsection \<open>Exceptions\<close>

text \<open>
  C1, as amended. \<^verbatim>\<open>serialize\<close> on a \<^verbatim>\<open>ParseError\<close> returns exactly when the kind is
  \<^verbatim>\<open>bad-string\<close>, \<^verbatim>\<open>bad-url\<close>, \<^verbatim>\<open>eof-in-string\<close>, \<^verbatim>\<open>eof-in-url\<close> or a substring of
  the three closers, and raises \<^verbatim>\<open>TypeError\<close> for every other kind, as the last branch
  of \<^verbatim>\<open>ParseError._serialize_to\<close> says. Constructing an \<^verbatim>\<open>IdentToken\<close> or an
  \<^verbatim>\<open>AtKeywordToken\<close> returns for every string. \<^verbatim>\<open>serialize\<close> returns on every comment,
  whitespace, literal, string, URL, unicode-range, number and percentage token.
\<close>

theorem ParseError_serialize_returns_iff:
  "returns (serialize S (ParseError line column k m)) = serializable_kind k
   \<and> (serialize S (ParseError line column k m) = Inl TypeError) = (\<not> serializable_kind k)
   \<and> returns (IdentToken_init line column v)
   \<and> returns (AtKeywordToken_init line column v)
   \<and> returns (serialize S (Comment line column v))
   \<and> returns (serialize S (WhitespaceToken line column v))
   \<and> returns (serialize S (LiteralToken line column v))
   \<and> returns (serialize S (StringToken line column v repr))
   \<and> returns (serialize S (URLToken line column v repr))
   \<and> returns (serialize S (UnicodeRangeToken line column s e))
   \<and> returns (serialize S (NumberToken line column x int_v is_int repr))
   \<and> returns (serialize S (PercentageToken line column x int_v is_int repr))"
proof -
  have a: "returns (serialize S (ParseError line column k m)) = serializable_kind k"
    by (auto simp: serialize_def ParseError_serialize_to_def serializable_kind_def)
  have b: "(serialize S (ParseError line column k m) = Inl TypeError) = (\<not> serializable_kind k)"
    by (auto simp: serialize_def ParseError_serialize_to_def serializable_kind_def)
  have c: "returns (IdentToken_init line column v)"
    by (simp add: IdentToken_init_def ascii_lower_def)
  have d: "returns (AtKeywordToken_init line column v)"
    by (simp add: AtKeywordToken_init_def ascii_lower_def)
  have f: "returns (serialize S (Comment line column v))"
    "returns (serialize S (WhitespaceToken line column v))"
    "returns (serialize S (LiteralToken line column v))"
    "returns (serialize S (StringToken line column v repr))"
    "returns (serialize S (URLToken line column v repr))"
    "returns (serialize S (UnicodeRangeToken line column s e))"
    "returns (serialize S (NumberToken line column x int_v is_int repr))"
    "returns (serialize S (PercentageToken line column x int_v is_int repr))"
    by (simp_all add: serialize_def)
  from a b c d f show ?thesis by blast
qed

text \<open>
  The amended C1 at an error of the parser's kind \<^verbatim>\<open>invalid\<close>, at a stray closing
  bracket, and at an identifier with a lone surrogate.
\<close>

theorem ParseError_serialize_returns_iff_witness:
  "\<not> returns (serialize plain_serializer (ParseError 1 1 (ustr ''invalid'') (ustr ''no block'')))
   \<and> serialize plain_serializer (ParseError 1 1 (ustr ''invalid'') (ustr ''no block''))
       = Inl TypeError
   \<and> returns (serialize plain_serializer (ParseError 1 5 (ustr '']'') (ustr ''unmatched'')))
   \<and> returns (IdentToken_init 1 1 [0x41, 0xD800])
   \<and> returns (AtKeywordToken_init 1 1 [0x41, 0xD800])"
  using ParseError_serialize_returns_iff
          [of plain_serializer 1 1 "ustr ''invalid''" "ustr ''no block''" "[0x41, 0xD800]"]
    ParseError_serialize_returns_iff
          [of plain_serializer 1 5 "ustr '']''" "ustr ''unmatched''" "[0x41, 0xD800]"]
  by (simp add: serializable_kind_def ustr_def)

text \<open>
  C1 as stated fails at an error node of kind \<^verbatim>\<open>invalid\<close>, a kind the spec lists for
  the rule and declaration parsers: \<^verbatim>\<open>serialize\<close> reaches the \<^verbatim>\<open>raise TypeError\<close> of
  \<^verbatim>\<open>ParseError._serialize_to\<close>.
\<close>

theorem ParseError_invalid_raises_counterexample:
  "serialize plain_serializer (ParseError 1 1 (ustr ''invalid'') (ustr ''no block''))
     = Inl TypeError"
  by (simp add: serialize_def ParseError_serialize_to_def ustr_def)

subsection \<open>Lowered fields\<close>

text \<open>
  C2, as amended. An \<^verbatim>\<open>IdentToken\<close> or \<^verbatim>\<open>AtKeywordToken\<close> has \<^verbatim>\<open>lower_value\<close> equal to
  the ASCII-lowercase of \<^verbatim>\<open>value\<close> when the value holds no surrogate code point, and
  equal to \<^verbatim>\<open>value\<close> unchanged when it holds one. Every constructed \<^verbatim>\<open>FunctionBlock\<close>
  and \<^verbatim>\<open>DimensionToken\<close> has \<^verbatim>\<open>lower_name\<close>, \<^verbatim>\<open>lower_unit\<close> equal to the
  ASCII-lowercase of \<^verbatim>\<open>name\<close>, \<^verbatim>\<open>unit\<close>.
\<close>

theorem lowered_fields:
  "IdentToken_init line column v
     = Inr (IdentToken line column v (if list_ex is_surrogate v then v else ascii_lowercase v))
   \<and> AtKeywordToken_init line column v
     = Inr (AtKeywordToken line column v
              (if list_ex is_surrogate v then v else ascii_lowercase v))
   \<and> (\<forall>t. FunctionBlock_init line column n args = Inr t \<longrightarrow>
          name t = n \<and> lower_name t = ascii_lowercase (name t))
   \<and> (\<forall>t. DimensionToken_init line column x int_v repr u = Inr t \<longrightarrow>
          unit t = u \<and> lower_unit t = ascii_lowercase (unit t))"
  by (auto simp: IdentToken_init_def AtKeywordToken_init_def FunctionBlock_init_def
      DimensionToken_init_def ascii_lower_def ascii_lowercase_def split: if_splits)

text \<open>
  The amended C2 at the identifier \<^verbatim>\<open>Red\<close>, an at-keyword with a lone surrogate, the
  function name \<^verbatim>\<open>RGB\<close> and the unit \<^verbatim>\<open>PX\<close>.
\<close>

theorem lowered_fields_witness:
  "IdentToken_init 1 1 (ustr ''Red'') = Inr (IdentToken 1 1 (ustr ''Red'') (ustr ''red''))
   \<and> AtKeywordToken_init 1 1 [0x41, 0xD800] = Inr (AtKeywordToken 1 1 [0x41, 0xD800] [0x41, 0xD800])
   \<and> FunctionBlock_init 1 1 (ustr ''RGB'') [] = Inr (FunctionBlock 1 1 (ustr ''RGB'') (ustr ''rgb'') [])
   \<and> lower_name (FunctionBlock 1 1 (ustr ''RGB'') (ustr ''rgb'') []) = ascii_lowercase (ustr ''RGB'')
   \<and> DimensionToken_init 1 1 3 (Some 3) (ustr ''3'') (ustr ''PX'')
       = Inr (DimensionToken 1 1 3 (Some 3) True (ustr ''3'') (ustr ''PX'') (ustr ''px''))
   \<and> lower_unit (DimensionToken 1 1 3 (Some 3) True (ustr ''3'') (ustr ''PX'') (ustr ''px''))
       = ascii_lowercase (ustr ''PX'')"
  using lowered_fields
          [of 1 1 "ustr ''Red''" "ustr ''RGB''" "[]" 3 "Some 3" "ustr ''3''" "ustr ''PX''"]
    lowered_fields
          [of 1 1 "[0x41, 0xD800]" "ustr ''RGB''" "[]" 3 "Some 3" "ustr ''3''" "ustr ''PX''"]
  by (simp add: ustr_def is_surrogate_def ascii_lowercase_def ascii_lower_code_point_def
      FunctionBlock_init_def DimensionToken_init_def ascii_lower_def)

text \<open>
  C2 as stated fails at the identifier made of \<^verbatim>\<open>A\<close> and the lone surrogate \<open>0xD800\<close>:
  the constructor catches \<^verbatim>\<open>UnicodeEncodeError\<close> and stores the value unchanged, so
  \<^verbatim>\<open>lower_value\<close> keeps the upper-case \<^verbatim>\<open>A\<close>.
\<close>

theorem IdentToken_lower_value_counterexample:
  "IdentToken_init 1 1 [0x41, 0xD800] = Inr (IdentToken 1 1 [0x41, 0xD800] [0x41, 0xD800])
   \<and> lower_value (IdentToken 1 1 [0x41, 0xD800] [0x41, 0xD800])
       \<noteq> ascii_lowercase (value' (IdentToken 1 1 [0x41, 0xD800] [0x41, 0xD800]))"
  by (simp add: IdentToken_init_def ascii_lower_def is_surrogate_def ascii_lowercase_def
      ascii_lower_code_point_def)

subsection \<open>Serialization of the node classes\<close>

text \<open>
  C3. For every \<^verbatim>\<open>ParseError\<close> node, \<^verbatim>\<open>serialize\<close> returns a double quote, the text
  \<^verbatim>\<open>[bad string]\<close> and a newline when the kind is \<^verbatim>\<open>bad-string\<close>; the text
  \<^verbatim>\<open>url([bad url])\<close> when it is \<^verbatim>\<open>bad-url\<close>; the closer itself when the kind is one of
  the three closers; and the empty string when it is \<^verbatim>\<open>eof-in-string\<close> or
  \<^verbatim>\<open>eof-in-url\<close>.
\<close>

theorem ParseError_serialize:
  "serialize S (ParseError line column (ustr ''bad-string'') m)
     = Inr (0x22 # ustr ''[bad string]'' @ [0x0A])
   \<and> serialize S (ParseError line column (ustr ''bad-url'') m) = Inr (ustr ''url([bad url])'')
   \<and> serialize S (ParseError line column (ustr '')'') m) = Inr (ustr '')'')
   \<and> serialize S (ParseError line column (ustr '']'') m) = Inr (ustr '']'')
   \<and> serialize S (ParseError line column (ustr ''}'') m) = Inr (ustr ''}'')
   \<and> serialize S (ParseError line column (ustr ''eof-in-string'') m) = Inr []
   \<and> serialize S (ParseError line column (ustr ''eof-in-url'') m) = Inr []"
  by (simp add: serialize_def ParseError_serialize_to_def ustr_def)

text \<open>
  C4. For every \<^verbatim>\<open>FunctionBlock\<close> whose arguments end with a \<^verbatim>\<open>ParseError\<close> of kind
  \<^verbatim>\<open>eof-in-string\<close>, \<^verbatim>\<open>serialize\<close> writes the escaped name, the opening parenthesis and
  the serialized arguments, and no closing parenthesis (an exception of the escaping
  routine or of the arguments is passed on).
\<close>

theorem FunctionBlock_eof_in_string_unclosed:
  assumes "args \<noteq> []" and "last args = ParseError l c (ustr ''eof-in-string'') m"
  shows "serialize S (FunctionBlock line column n lower_n args) =
     (case serialize_identifier S n of
        Inl e \<Rightarrow> Inl e
      | Inr ident \<Rightarrow>
          (case serialize_nodes_to S None args of
             Inl e \<Rightarrow> Inl e
           | Inr chunks \<Rightarrow> Inr (ident @ ustr ''('' @ concat chunks)))"
  using assms by (simp add: serialize_def split: sum.splits)

text \<open>C4 at the function \<^verbatim>\<open>f\<close> with the arguments \<^verbatim>\<open>a\<close> and an unterminated string.\<close>

theorem FunctionBlock_eof_in_string_unclosed_witness:
  "serialize plain_serializer
     (FunctionBlock 1 1 (ustr ''f'') (ustr ''f'')
        [IdentToken 1 3 (ustr ''a'') (ustr ''a''), ParseError 1 4 (ustr ''eof-in-string'') []])
   = Inr (ustr ''f(a'')"
  using FunctionBlock_eof_in_string_unclosed
          [of "[IdentToken 1 3 (ustr ''a'') (ustr ''a''),
                ParseError 1 4 (ustr ''eof-in-string'') []]"
              1 4 "[]" plain_serializer 1 1 "ustr ''f''" "ustr ''f''"]
  by (simp add: plain_serializer_def ustr_def ParseError_serialize_to_def)

text \<open>
  C5. For every \<^verbatim>\<open>DimensionToken\<close> whose unit is \<^verbatim>\<open>e\<close> or \<^verbatim>\<open>E\<close>, or starts with
  \<^verbatim>\<open>e-\<close> or \<^verbatim>\<open>E-\<close>, \<^verbatim>\<open>serialize\<close> writes the representation, then a backslash, \<^verbatim>\<open>65\<close>
  and a space, then the name-escaped rest of the unit after its first character; for
  every other unit it writes the representation and the identifier-escaped unit. In the
  first case the text after the representation starts with a backslash, not with the
  letter of an exponent.
\<close>

theorem DimensionToken_serialize:
  "serialize S (DimensionToken line column v int_v is_int repr u lower_u) =
     (if u = ustr ''e'' \<or> u = ustr ''E'' \<or> prefix (ustr ''e-'') u \<or> prefix (ustr ''E-'') u
      then (case serialize_name S (drop 1 u) of
              Inl e \<Rightarrow> Inl e
            | Inr escaped \<Rightarrow> Inr (repr @ [0x5C, 0x36, 0x35, 0x20] @ escaped))
      else (case serialize_identifier S u of
              Inl e \<Rightarrow> Inl e
            | Inr ident \<Rightarrow> Inr (repr @ ident)))"
  by (simp add: serialize_def split: sum.splits)

text \<open>C5 at the units \<^verbatim>\<open>E-x\<close>, \<^verbatim>\<open>E\<close> and \<^verbatim>\<open>em\<close> of the number \<^verbatim>\<open>3\<close>.\<close>

theorem DimensionToken_serialize_witness:
  "serialize plain_serializer
     (DimensionToken 1 1 3 (Some 3) True (ustr ''3'') (ustr ''E-x'') (ustr ''e-x''))
     = Inr (ustr ''3'' @ [0x5C, 0x36, 0x35, 0x20] @ ustr ''-x'')
   \<and> serialize plain_serializer
     (DimensionToken 1 1 3 (Some 3) True (ustr ''3'') (ustr ''E'') (ustr ''e''))
     = Inr (ustr ''3'' @ [0x5C, 0x36, 0x35, 0x20])
   \<and> serialize plain_serializer
     (DimensionToken 1 1 3 (Some 3) True (ustr ''3'') (ustr ''em'') (ustr ''em''))
     = Inr (ustr ''3em'')"
  using DimensionToken_serialize
          [of plain_serializer 1 1 3 "Some 3" True "ustr ''3''" "ustr ''E-x''" "ustr ''e-x''"]
    DimensionToken_serialize
          [of plain_serializer 1 1 3 "Some 3" True "ustr ''3''" "ustr ''E''" "ustr ''e''"]
    DimensionToken_serialize
          [of plain_serializer 1 1 3 "Some 3" True "ustr ''3''" "ustr ''em''" "ustr ''em''"]
  by (simp add: plain_serializer_def ustr_def)

text \<open>
  C8. For every \<^verbatim>\<open>StringToken\<close>, \<^verbatim>\<open>URLToken\<close> and \<^verbatim>\<open>NumberToken\<close>, \<^verbatim>\<open>serialize\<close>
  returns the representation unchanged; for every \<^verbatim>\<open>PercentageToken\<close> it returns the
  representation followed by a percent sign; and every output of a \<^verbatim>\<open>DimensionToken\<close>
  begins with the representation.
\<close>

theorem representation_verbatim:
  "serialize S (StringToken line column v repr) = Inr repr
   \<and> serialize S (URLToken line column v repr) = Inr repr
   \<and> serialize S (NumberToken line column x int_v is_int repr) = Inr repr
   \<and> serialize S (PercentageToken line column x int_v is_int repr) = Inr (repr @ ustr ''%'')
   \<and> (\<forall>out. serialize S (DimensionToken line column x int_v is_int repr u lower_u) = Inr out
          \<longrightarrow> prefix repr out)"
  by (auto simp: serialize_def split: sum.splits if_splits)

text \<open>
  C8 at the string \<^verbatim>\<open>"a"\<close>, the percentage \<^verbatim>\<open>+50%\<close> and the dimension \<^verbatim>\<open>3em\<close>.
\<close>

theorem representation_verbatim_witness:
  "serialize plain_serializer (StringToken 1 1 (ustr ''a'') (0x22 # ustr ''a'' @ [0x22]))
     = Inr (0x22 # ustr ''a'' @ [0x22])
   \<and> serialize plain_serializer (PercentageToken 1 1 50 (Some 50) True (ustr ''+50''))
     = Inr (ustr ''+50%'')
   \<and> serialize plain_serializer
        (DimensionToken 1 1 3 (Some 3) True (ustr ''3'') (ustr ''em'') (ustr ''em''))
     = Inr (ustr ''3em'')
   \<and> prefix (ustr ''3'') (ustr ''3em'')"
  using representation_verbatim
          [of plain_serializer 1 1 "ustr ''a''" "0x22 # ustr ''a'' @ [0x22]"]
    representation_verbatim [of plain_serializer 1 1 _ "ustr ''+50''" 50 "Some 50" True]
    representation_verbatim
          [of plain_serializer 1 1 _ "ustr ''3''" 3 "Some 3" True "ustr ''em''" "ustr ''em''"]
  by (simp add: plain_serializer_def ustr_def serialize_def)

subsection \<open>Numeric tokens\<close>

text \<open>
  C6, as amended. For every constructed \<^verbatim>\<open>NumberToken\<close>, \<^verbatim>\<open>PercentageToken\<close> and
  \<^verbatim>\<open>DimensionToken\<close>, with any constructor arguments, \<^verbatim>\<open>is_integer\<close> is true exactly
  when \<^verbatim>\<open>int_value\<close> is present; \<^verbatim>\<open>value\<close> and \<^verbatim>\<open>int_value\<close> are the arguments as
  passed, which the constructor does not compare.
\<close>

theorem numeric_tokens_is_integer:
  "is_integer (NumberToken_init line column v int_v repr)
     = (int_value (NumberToken_init line column v int_v repr) \<noteq> None)
   \<and> int_value (NumberToken_init line column v int_v repr) = int_v
   \<and> number_value (NumberToken_init line column v int_v repr) = v
   \<and> is_integer (PercentageToken_init line column v int_v repr)
     = (int_value (PercentageToken_init line column v int_v repr) \<noteq> None)
   \<and> int_value (PercentageToken_init line column v int_v repr) = int_v
   \<and> number_value (PercentageToken_init line column v int_v repr) = v
   \<and> (\<forall>t. DimensionToken_init line column v int_v repr u = Inr t \<longrightarrow>
          is_integer t = (int_value t \<noteq> None) \<and> int_value t = int_v \<and> number_value t = v)"
  by (auto simp: NumberToken_init_def PercentageToken_init_def DimensionToken_init_def
      split: sum.splits)

text \<open>
  The amended C6 at the number \<^verbatim>\<open>3\<close>, the percentage \<^verbatim>\<open>2.5\<close> and the dimension
  \<^verbatim>\<open>3px\<close>.
\<close>

theorem numeric_tokens_is_integer_witness:
  "is_integer (NumberToken_init 1 1 3 (Some 3) (ustr ''3''))
   \<and> \<not> is_integer (PercentageToken_init 1 1 (5 / 2) None (ustr ''2.5''))
   \<and> DimensionToken_init 1 1 3 (Some 3) (ustr ''3'') (ustr ''px'')
       = Inr (DimensionToken 1 1 3 (Some 3) True (ustr ''3'') (ustr ''px'') (ustr ''px''))
   \<and> is_integer (DimensionToken 1 1 3 (Some 3) True (ustr ''3'') (ustr ''px'') (ustr ''px''))
   \<and> int_value (DimensionToken 1 1 3 (Some 3) True (ustr ''3'') (ustr ''px'') (ustr ''px''))
       = Some 3"
  using numeric_tokens_is_integer [of 1 1 3 "Some 3" "ustr ''3''" "ustr ''px''"]
    numeric_tokens_is_integer [of 1 1 "5 / 2" None "ustr ''2.5''" "ustr ''px''"]
  by (simp add: DimensionToken_init_def ascii_lower_def ustr_def is_surrogate_def
      ascii_lower_code_point_def)

text \<open>
  C6 as stated fails at \<^verbatim>\<open>NumberToken(1, 1, 2.5, 3, '3')\<close>: \<^verbatim>\<open>is_integer\<close> is true and
  the value \<^verbatim>\<open>2.5\<close> is not the integer value \<^verbatim>\<open>3\<close>.
\<close>

theorem NumberToken_value_int_value_counterexample:
  "is_integer (NumberToken_init 1 1 (5 / 2) (Some 3) (ustr ''3''))
   \<and> number_value (NumberToken_init 1 1 (5 / 2) (Some 3) (ustr ''3''))
       \<noteq> real_of_int (the (int_value (NumberToken_init 1 1 (5 / 2) (Some 3) (ustr ''3''))))"
  by (simp add: NumberToken_init_def)

subsection \<open>Literal tokens and declarations\<close>

text \<open>
  C7. For every literal token and every string \<open>s\<close>, the token compares equal to \<open>s\<close>
  exactly when its value is \<open>s\<close>, and \<^verbatim>\<open>!=\<close> is the negation of \<^verbatim>\<open>==\<close>.
\<close>

theorem LiteralToken_eq_string:
  "LiteralToken_eq addr (LiteralToken line column v) (Str s) = (v = s)
   \<and> LiteralToken_ne addr (LiteralToken line column v) (Str s)
       = (\<not> LiteralToken_eq addr (LiteralToken line column v) (Str s))"
  by (simp add: LiteralToken_eq_def LiteralToken_ne_def)


end
